theory Spec2Isabelle
  imports Main "HOL-Library.Monad_Syntax"
begin

section \<open>The Crypto.com DeFi wallet configurator\<close>

text \<open>
  Embedding of \<^verbatim>\<open>legacy_packages/react/src/wallet/wallets/defiWallet/cryptoDefiWallet.tsx\<close>.
  An optional property or argument of type \<open>T | undefined\<close> is a \<open>T option\<close> with
  \<open>None\<close> for \<^verbatim>\<open>undefined\<close>; optional chaining \<^verbatim>\<open>x?.f\<close> is \<open>x \<bind> f\<close>.
  Object literals whose type is declared outside the file are association lists in
  the order the source writes their keys.
\<close>

subsection \<open>Data model\<close>

text \<open>The module constant \<^verbatim>\<open>cryptoDefiWalletUris\<close> (lines 15 to 19).\<close>

definition cryptoDefiWalletUris :: "(string \<times> string) list" where
  "cryptoDefiWalletUris =
     [(''ios'', ''dfw://''),
      (''android'', ''dfw://''),
      (''other'', ''dfw://'')]"

text \<open>
  The type \<^verbatim>\<open>CryptoDefiWalletConfigOptions\<close> (lines 24 to 53). The imported type
  \<^verbatim>\<open>QRModalOptions\<close> is the type parameter \<open>'q\<close>. The union
  \<^verbatim>\<open>{ qrModalOptions?: QRModalOptions } | boolean\<close> of the property \<^verbatim>\<open>wcModal\<close> is a
  datatype with one constructor for each member.
\<close>

record 'q wcModalObject =
  qrModalOptions :: "'q option"

datatype 'q wcModal_t =
    WcObject "'q wcModalObject"
  | WcBoolean bool

record 'q CryptoDefiWalletConfigOptions =
  projectId :: "string option"
  recommended :: "bool option"
  wcModal :: "'q wcModal_t option"

text \<open>
  The JavaScript operators that \<^verbatim>\<open>create\<close> applies to \<^verbatim>\<open>options?.wcModal\<close>, on the
  values its declared type admits: the truthiness test of the conditional operator,
  \<^verbatim>\<open>typeof\<close>, and the property read \<^verbatim>\<open>.qrModalOptions\<close> (a property read on a boolean
  primitive yields \<^verbatim>\<open>undefined\<close>).
\<close>

fun truthy :: "'q wcModal_t option \<Rightarrow> bool" where
  "truthy None = False"
| "truthy (Some (WcBoolean b)) = b"
| "truthy (Some (WcObject obj)) = True"

fun typeof :: "'q wcModal_t option \<Rightarrow> string" where
  "typeof None = ''undefined''"
| "typeof (Some (WcBoolean b)) = ''boolean''"
| "typeof (Some (WcObject obj)) = ''object''"

fun get_qrModalOptions :: "'q wcModal_t \<Rightarrow> 'q option" where
  "get_qrModalOptions (WcObject obj) = wcModalObject.qrModalOptions obj"
| "get_qrModalOptions (WcBoolean b) = None"

text \<open>
  The options object that \<^verbatim>\<open>create\<close> builds for the wallet-client constructor (lines
  99 to 107): the spread \<^verbatim>\<open>...walletOptions\<close> of the framework's options, of the
  imported type \<^verbatim>\<open>WalletOptions\<close> (the type parameter \<open>'w\<close>), followed by the three
  properties the factory sets. They come after the spread, so they are the ones the
  object holds.
\<close>

record ('w, 'q) CryptoDefiWalletOptions =
  baseOptions :: 'w
  projectId :: "string option"
  qrcode :: bool
  qrModalOptions :: "'q option"

subsection \<open>The host environment\<close>

text \<open>
  The state the operations act on: the wallet provider injected into the page (type
  parameter \<open>'p\<close>), the wallet instances constructed so far (an instance is referred
  to by its index), and the session-request registrations made so far.
\<close>

type_synonym ref = nat

record ('w, 'q, 'p) host =
  injectedProvider :: "'p option"
  instances :: "('w, 'q) CryptoDefiWalletOptions list"
  sessionRequestHandlers :: "(ref \<times> (string \<times> string) list) list"

definition wallet_at :: "('w, 'q, 'p) host \<Rightarrow> ref \<Rightarrow> ('w, 'q) CryptoDefiWalletOptions option" where
  "wallet_at h r = (if r < length (instances h) then Some (instances h ! r) else None)"

text \<open>
  Modelled from the spec: the wallet-client constructor \<^verbatim>\<open>new CryptoDefiWallet(...)\<close> of
  the package \<^verbatim>\<open>@thirdweb-dev/wallets\<close>, which is not among the sources. The spec has it
  accept \<^verbatim>\<open>{projectId, qrcode, qrModalOptions, ...baseOptions}\<close> and calls the
  construction synchronous and infallible. The model only records the call: the new
  instance gets the next free reference and holds the options object it was
  constructed with, unchanged, so that what is said of an instance below is said of
  the object literal that \<^verbatim>\<open>create\<close> passes to the constructor.
\<close>

definition new_CryptoDefiWallet ::
  "('w, 'q) CryptoDefiWalletOptions \<Rightarrow> ('w, 'q, 'p) host \<Rightarrow> ref \<times> ('w, 'q, 'p) host" where
  "new_CryptoDefiWallet opts h =
     (length (instances h), h\<lparr>instances := instances h @ [opts]\<rparr>)"

text \<open>
  Modelled from the spec: the Session Request Adapter \<^verbatim>\<open>handelWCSessionRequest\<close> of
  \<^verbatim>\<open>../handleWCSessionRequest\<close>, which is not among the sources. The spec describes a
  registration call with no return value, given a wallet instance and the URI mapping.
  The model only records the call, with its two arguments, after the earlier ones.
\<close>

definition handelWCSessionRequest ::
  "ref \<Rightarrow> (string \<times> string) list \<Rightarrow> ('w, 'q, 'p) host \<Rightarrow> ('w, 'q, 'p) host" where
  "handelWCSessionRequest wallet uris h =
     h\<lparr>sessionRequestHandlers := sessionRequestHandlers h @ [(wallet, uris)]\<rparr>"

text \<open>
  Modelled from the spec: the provider-detection function
  \<^verbatim>\<open>getInjectedCryptoDefiWalletProvider\<close> of \<^verbatim>\<open>@thirdweb-dev/wallets\<close>, which is not among
  the sources. It returns the injected provider object of the host environment, or
  \<^verbatim>\<open>undefined\<close> when there is none, and leaves the host as it was.
\<close>

definition getInjectedCryptoDefiWalletProvider ::
  "('w, 'q, 'p) host \<Rightarrow> 'p option \<times> ('w, 'q, 'p) host" where
  "getInjectedCryptoDefiWalletProvider h = (injectedProvider h, h)"

subsection \<open>Operations\<close>

text \<open>
  \<^verbatim>\<open>isWalletInstalled\<close> (lines 118 to 120). The double negation \<^verbatim>\<open>!!\<close> of a value that
  is an object or \<^verbatim>\<open>undefined\<close> is true exactly for the object.
\<close>

definition isWalletInstalled :: "('w, 'q, 'p) host \<Rightarrow> bool \<times> ('w, 'q, 'p) host" where
  "isWalletInstalled h =
     (case getInjectedCryptoDefiWalletProvider h of
        (provider, h') \<Rightarrow> (\<not> \<not> (provider \<noteq> None), h'))"

text \<open>
  The React component \<^verbatim>\<open>ConnectUI\<close> (lines 122 to 141) is a module-level function; the
  configuration refers to it by name, and that reference is what is modelled.
\<close>

datatype component = ConnectUI

text \<open>
  The configuration object that \<^verbatim>\<open>cryptoDefiWallet\<close> returns (lines 83 to 115), of the
  imported type \<^verbatim>\<open>WalletConfig\<close>.
\<close>

record WalletMeta =
  name :: string
  urls :: "(string \<times> string) list"
  iconURL :: string

record ('w, 'q, 'p) WalletConfig =
  id' :: string
  recommended :: "bool option"
  meta :: WalletMeta
  create :: "'w \<Rightarrow> ('w, 'q, 'p) host \<Rightarrow> ref \<times> ('w, 'q, 'p) host"
  connectUI :: component
  isInstalled :: "('w, 'q, 'p) host \<Rightarrow> bool \<times> ('w, 'q, 'p) host"

text \<open>
  The string literal of \<^verbatim>\<open>meta.iconURL\<close> (line 96), a data URL of 20818 characters,
  written as the concatenation of its consecutive pieces of 80 characters.
\<close>

definition cryptoDefiWallet_iconURL :: string where
  "cryptoDefiWallet_iconURL =
     concat
       [''data:image/png;base64,iVBORw0KGgoAAAANSUhEUgAAAIAAAACACAYAAADDPmHLAAAAAXNSR0IArs'',
        ''4c6QAAIABJREFUeF7tfQe4XFXV9rv3PufMzC3pQIB0EFAE/QCBH6X4CQIWlCZSpClVWmiBhEAChg4JIY'',
        ''ROwIQmRVABxQIoKKJ8fqIf0lKogQCpt8ycsvf/vGufubnBZCZkiLnkYfPkueFmyjlnr73Ku961lsIqLu'',
        ''fcMACHAeDP7n9W8RM/edtKPoE5+ev4k3+e4E+l1OMr+f5lXqY+zJu6bfrh+aZ/mLd/8trV+wQoDLcqpc'',
        ''Z/mK9ZKQHotvHjPsyHf/LaNfIEPpQg1BUA59wuAB5bI7fyyZc28gRWShBqCoBz7jwAn5z6RrZhzb63rh'',
        ''CsUACcczz1PP2frI//E6BvcMTybmO5AvDJ5n/8d3w5d7BcIfg3AfhE7a+Vm1+9qXEfjBKWEYC10eHLsg'',
        ''TOORgTQqnq7Vr5Hf8/jR1MqOFcBq2rz4l/sQASAKW1SSLoE4xXSt1avakPCsDstS6+d/mtKiBNYwQBN1'',
        ''vJH6U0oNqg0ARkGuBrufc6ke13CGHWpu3390LQaPi/CcDaqvqdBeTgK8A5+ZH/hX/LgMz4XxpuuRYZyG'',
        ''wCa4EwCP3r177V5Q903Z+jTlwLV5p1QiGAQigqXoRA7jqDtQk0AoB/NJCqTqRIUUArFOWBq8ssrFUPp0'',
        ''sL5Adi7Y33HRIoeJUval/TBHgheHfeYvRbtxesK8OoDNo1QTkFmwGaut8mQBCuVTvf7WbEIawKwNpn+/'',
        ''M7rW5mhgo0LCxCpFmAq6++G1dcPhV9Pv0VnHLC7jjsW9uhaB2QKdDwO50gRoYCimurAIgWqArAWqn+Ze'',
        ''e8aRfbzr8++runceJJYzBnzkLAlpBtvB3CrIRPD2rGvbediuEDuf8hkkTBhKn8fS1eX1bOOWb2pq29N8'',
        ''lQLsTLL8/FD08cjceeeBapCwATAsoAn9oaUAFMGiKIExz07W1x1knfxCYbtACpdw/W4jWOAsDNpxD0yC'',
        ''UqPD/B4rUrB/5H1cUTbSRQ0+jy9vl7l0JrbnyCtxf2wvjzJ+LWaXej3G5RKBZRiTtBN99EEbLBuwKFCu'',
        ''DKgI6AToX+JYujD98FZ538TfRKvQpJGCwoC20tNL9dGYkU6CNSuzCiTJMMQZBHFcr661BRj3yu+UU9Tg'',
        ''H4WGD+3WMUazMBcQTg0QZplkIbi8xlCHQIawPQnF9/3d0YM/4itHVkcFkErUNkaSpCpE0oTiE23hZOV3'',
        ''xIaCNo1RsqtiiGHRiyQQtOP35vHPDNL6CZT6xcBooRMqeROMCYWOILiSmshVIGWuW/cUASxwgLPV8Aer'',
        ''gDSD0s6IwcNUclUEVn6LMJyudgkUKJmxfgd7/7O049eRz+9cLrCEoWcergCPTkJ1XzlDoDZ0O4YdsBJo'',
        ''XTMT8MME1iMhDHXv27DJtuUMQvZozFRusGUK4gn+OUvy6HMpw4ivzu6pVaKJuDDz07jJxDDdDDHcBUVK'',
        ''1zBkZOfR7HM0QzVMXcfA3rDJ577jWcMnIMnnnmn8jSwOtlLqNhrYXNUihj4USYQhhdAkbsJDCwTctARJ'',
        ''1u4eNAOn9KHEW4JYiMwwHf/CJGH78bNlu/FxB7/8DGAVRIc8TrofbxyiQU37EM9OwooucLQHf59Fg+Nz'',
        ''KTn9poZAixZLHFhAmTMWnSzbAuggkC8ADSLCQdDmGxCdamyLKKFwBKkSCAReDT20G7QDSLpjBZ5g5SmE'',
        ''IJmTOITIy4UgSSThGkZmsx6vhv4MRjvozWQgZDQaPmCAkr868VaAERvNbq6Uhiz9cA4mFRAzg5qdBKTh'',
        ''ltP3+eP+FWXDv1Oixc1AmtQlQqMYJiE1Kx9YBxGo4OG4VGZQgiJU6bswGMKSAZvjkhQIDawDoRgpCClW'',
        ''VwSiOzBRizGMpROFphMwsTKGw0KMLIk/fCD/bcWkyPt0p0POlPUDwLsIwsengU8bEQADpuzNildP50KB'',
        ''v4hydewNHHnoTZsxeIenfIoINAnMMsY6ZPw6UplHZQJoKzCo7Qb6DkT5YpOHpym+4s+LBiRpASRfUvgF'',
        ''ACHRqYqISkPUMUUU4qsNQemkddQaWt+OzgGFMmj8E2m/VFASmMDXz4GPJHGQG1TA9eHwsBkI0xmdju//'',
        ''3HKxg16iL84Yl/olLWQJBBm4DQXQ73+ghBGwemgkPjkBDdcxraGGjtkDnvwFFjZEN2RFTSiLMO72EK8B'',
        ''N5/yGzUEjh6MhnNPoFv/EugDY0Ke1QuheKWSe+t9eOOPP4fbDRIEPHALCh91F6thNIzba6ncCqb+yPQf'',
        ''Xbqj8zHUtCRluNLGUc7RUoN8BmGi5IxcFrawPOP38Spk79MVIXwSZ8jQGCatZmBcdsafaHrrt/EU9wdW'',
        ''30xcbOp+sAsiIQNEFhCU4/fi+M/P5uGBgyEqBA0Uegc5njA9oyDSW/V1Qm+eOx/B9Q4Pgf/0oBzOWxsS'',
        ''us+e7/gABA7KnWuouQwf83xlvNOMkQhrxpuvo8yV4D83kxkZPaEBdefD2umXITFi2qSI4+qWQISs1Ik/'',
        ''jDnTAKgERn3QVgh8YebxzClFJkth1aF6HKCiPWa8XYUftinz23RLNLAFVAmZGBoU9CP4HXEYilMHRNeD'',
        ''ma20+Ai7EutYwErR/u/lbhTv4jAlC9LjpxS1k53rFTH6Rc0LwKsAL86c//h8MPG4W5c99BJbZQIhUa0L'',
        ''lDmJ+kOiKeqx4SQFSXEuh6siO2W4XHtvQtGh5QIjoJW0FQ0EjLS4AsxSYbfwozJh2HLTbpD4NUjEtcdo'',
        ''gKoVyHZYLKMkNJtee5CNUl8Y4lorl6vcj/iAB0efC8zWVoV3Sc6ar7k+mURSVL8Nw/52DUqMvw+98/B2'',
        ''sFg4UJC+LswaZQDNcYt1OggpV3sqoWoAtJ4lMeum1DAgBVBmwRSAvQIXGAdiDgVhIkMNB4F4fvtxPGHL'',
        ''Mfhq3bIidbiaIjVGyheQ/a5AwlI9rP5vQ0RjJR4IGn1bVWuwB4W0+v3Nu4OIkRGMKyuWTzuBOXURbzF8'',
        ''eYcOFUTJp8m4RphGttkgJRSDsiWL2c4rQi79H0E5Y5N//+mPi1Szc+17Xdg/MhX2jw2frIQYUGxaAJnZ'',
        ''2xCGsm18jd7ECgeiG0HTjj+K/hpCO+hv6l/LQb2nzvBFC2ueFhSAeUQkBomW7v6iWl/UcEgDZO0DYCLI'',
        ''KwdWV3kCHFkjaLy664ATfceA/mLyRY4x+gQL6GMC59QoZ1/rSQ4JnGMYIoEp7fyi8P1izjAwzeauXfvr'',
        ''xXmhK0zmArbQhC78AYXUCcMKxUiIImxLYD4ElOgI02NBg78ms4+Bs7IqgAWQFIM4vIeNDIm0m/6TkE0t'',
        ''j11Xn3aheANLVCxPS5O66lm08n+Td//BuOO3YUZs2eDx20wHLjIw2jaEuZpUthSkUBYBz1Y+4x0ankEr'',
        ''NQcy393mV8APoSXIM/19gDpnkyClmSIDC8TgWbxlBhKgKRJUQZmxBEIRIsEq1Q1CE2GVDApB+dgC9uN8'',
        ''RnFAkmCg+NzrCQFD3svZrDyNUuANVNqtp+oWVB4bHfPYMrr7gKv/jtawATMZF3gRRTsgz/shgBbWriuv'',
        ''wGZv0kVDJ8OAytfChVawl6WBW87uGf81GJG7RlYwIguH8BCU0VD65KgIRUMiKLvL4KXBATehTomQQTm1'',
        ''XgjMcZRu67EY4/5kgMH9JPHEXxDjILrYkk5imJxq6w5rs/EgFIbQKlmZLhEwg8oVLsLB9G6P0hPggTYm'',
        ''FHhgsmTMWUa25HlhYBXd2gFVxnpQwdrQebdUAVynAp/YkSXJZ4xzDz0OsKV/WkL+cFFAA7pHEN4BmlFU'',
        ''RhiDj2GIaJvAngdda8PNsHoXkP552yNw7YcxtsPLCfJLiYd+AzpIHLLaG3Cd2So9BtAFoaEo+GBaBqp6'',
        ''qFFrwaj71YkJEbEKVDAfPeq2DK1Bm4edpdePvdxUK2tGnO9qhxC1rT2+8lmIBDJ+CaoFGAQoKM6Fy9KG'',
        ''l5AtAdB1h/i8YeIEPS1CAqlBBX2qEDn3n0hFLuZe0opRAksEmEyEQYuE6AU0/cC4fs+0VWKtD98Zvucr'',
        ''yD4YO4vUx9Rx4satBENCwAlThFIfQATk7RgVMxAVShYmfQePIP/8CxR5+NmbPnw5hmpIRiCb1S7TOXWm'',
        ''upCtCpoZqJ8zu4pCSY/fDhfRAECbKUj2rVlx246aq/maKdzsP7bSHeW0zUTnugh3kGJqCCTih6eTWWSR'',
        ''LY0MAaev8GKo6x8YYFXHfFSOzwX4NRFKFnCJzBUlvyNaS4i2x0QIuorPpqWADyKC8vuKDqz2AVffsIf3'',
        ''jyeVx86TT85rdP5Ekc2gJJ0QEugaJzmBM1VnwLVIUBnOvM8fgWwLXhrbeeQZ8+CoU6YeAHPzcHWrt+LX'',
        ''mGBlasNR54bDYOPOZ8qGILXFyGyZhBbEasFvuDUWOp0PqkFNWFE2IBAl2GxhLsu+/umHD8gVh/EJMR7T'',
        ''CuWaBjKWhSREUJo7c2cPXUUA3mArwJoGGiRx7Ixb23pAOXXHIzJk/+CRLeFJ8Cs3LK/7GVCgT0Zx69Xr'',
        ''5UgCINmEToVtpF2HyzdfH00zOg0YYgFbLWqi+CUA2stLwYc+Ne+PQOh6ITvYGkA4GcyiJStxAQE1hj0Q'',
        ''FmkomwgSG2EQsmkjGZFDSjqdyGUaP2wXf33RYjBvSTAialPH5MlKCxq/8IBMAHq7TPCu/Ot5hy7S24/q'',
        ''ZbMf/9DGnSHwjne2JEWIKrMEcfIGT8nsWemNEVHq7gIdH+UWsUeLMRUFY49OBdcfMNo+GIAdQt3Fj+Ca'',
        ''9qgoZhlkyjYoAd9jobf3+5AxlVtsB5ZB4vAVxtJ824IiwjBz7DjMhmwaenSSrNSFQtAXEbPjN8PZx6zA'',
        ''H43ne2ZWWDcBB6hA8gXEpdkYKqrbbdD//3/JsCdZKAqV1vuGChwJyZhHMFcRC58QFPNUjk9NpjRYtpXd'',
        ''KzskqnnJSmQgETLzsFRx2+hzjLKR9ejSUYfbf1QRMQZA3y/i0Qh8CYS36CyTf9ATEI+vALqeHaAFVbQ0'',
        ''lYqIhx+PCWWiArd0JH1HYWKZ1YVUaEZgRxiK0/2wuPPngBVDYfBTvAZ68bWA2bAB5gq2IkKkJzr52R2V'',
        ''5QUQWwnTAqEiCEN0WqFckZvgzbu65C3BBBWPEyOoIws+nxawaaMf78x9ux1eYDoFLqzDpY+fJscDe9aQ'',
        ''nXNrC0U0jUEkx/4O845pTpSAshEGWgIlA6EVZRbQmnQ0xFxrg/9QkyEwgGQI5hQJ+fQi6htcbQgcCzj1'',
        ''+LXkwuZdQyDVw8P7JRH6BLhVsN1e/LHrI1KYI0Qip5vQYX1WDQ5GPLLMamQ4bg//45HUh5MpYKU4Pfsu'',
        ''pvVwoqs5jXMR9DthiNSlMZSHtBUdBNgkzYwau+unIZpKvpAEM2bMGsxy4X8plgZ419/GoWADor9bzg7j'',
        ''H5cp4TqV6iAoxBKWrC7rt8Hvfceb4UhBB8Em7/GlxpphAoi8RYbLHjaLy0YLGcftF6jHQaDdSFgi7VLg'',
        ''K0DRnc2kMFgNBq36oGsAiSEKmms9LYBjExQg6+SxIUw964ZMLhOPGY/XLSEFVmgzqwQeFJUosoMMIrPW'',
        ''rULbjt/j/D0W8hHEznd2n+e5W+SRzlPJWilcKQQa2Y+bsrxS+WrHNjj/ej0AC8LyYwvAD4kM0hiAOkpL'',
        ''s0eAI0U6XMuacOOi3gN49ehJ2230YoBOI5k0W0JhfBqZTUNeD2nz+FI068DbaQel5g1uQpPx/FYupDaw'',
        ''zd0AsA4ZNA8guNQYEfgQ/QXQC+AhUYOE0fIESaV880cv8BU8OuTR5yk9Z4/91fokg6VUrHac0LgKCTjo'',
        ''UpwEtvzcNWO4xCWcC5BIibperoI1niAxgpV5v12ERxgcKeIwAe61H9d/VOYJcAkNTQmI5yVsMEqTBxv7'',
        ''TtJvj1Q5NF9VkBkfzv1+Qi8zgIIjLAkBqHzbc9CbMXt8GaBKrSImhdI6srhU2eATQGD6IP0IMEoMsMLS'',
        ''MA3XyABgVAavhcBYEr4YfH74pLLxgJI8UZDon1xaBrcjHxQ6yCbWjIYzxq5I2Y9vMngJICOosSqTS8hF'',
        ''lE9qTC4MEtmPnbq8g26xkmYPULAOsBMxR0C376wFjsusPWCPNUc9atJqfhh7yKHyAnlJlJwhRBiMnTHs'',
        ''fICdOAkCagCdCNmgCGu97HogAMHdSCV353lVS2BQTRJEO46qthH8CngUli0AgH7i7AhyPuX/GOUV2ot9'',
        ''61M+OZ9UVRLcCslx/AOn2oCA3IQaAnHKmC90Gdr/mTsjwh1ZFNQe5dHRNUJ05n8CWOPNnKeW6fm16lbd'',
        ''HNSUNhPSK0Ds/9ay62//bp6Ez7AtkigJXIjaxqXYNAqBpDh/bCnMcnI+a9L1MqvWpf8pEKQLT+HlLaQA'',
        ''HQMVOcK4H1173uTuisBVtu2h/P/OnHgoPnkoWMjpF8R3V5j5jMISpMrZUvvKi16shHxg9wrALKYJi9FD'',
        ''63FwCWn7FmsKJ9sEtghvXAQ79wKObNZwcSMoEa89K7yqEla2k+ZgKQ19fX3eMaLzA6hkkNDjlgZ1w/dZ'',
        ''RvyJDkEGi3zSNpOGMpl1DI/T+kKXMO9ZzQ2hKSZhoR76PrY/LXd8l2GWWtoV0Bkbh8CrsfMhqP/+lNf1'',
        ''cN+0C+INaDqksFgLhD0CM0gDwbJjNoAnINQCp/TEi4YZzC1/klMa6efDoOP2RXFAiuUBvyP5VCu9BnBf'',
        ''PkkhLeH5NMCQxBpLrZktpQpWVa1gORwkyvpi5EM9M30x3CY2SfAMMeBIHGldMexZnjpyEwJSSS7m1gSZ'',
        ''mUFE2IAAwf0guzfj/Zty+SqqPGnODGTYDcG+2vRrDeHiIOsvG5ADRw6/JWgVSTMqZecy6GDW5CIWhGFv'',
        ''PpVyS5FKIJSeL7ARMoIWegqwSQPoClUl7xUro2ZauMRYLBCxU9yQR69ll4r9pdmiAoRDA2lP5BrHV8/N'',
        ''mZmHDlnZIHIHunkeWRQCkUELMzbEifpQJA2lmDUdBHKgDhwD3h6BV39wEaS7YBaBaefRa/L8hfIWhFpV'',
        ''xGQDWvIqRusWcJS+0dqVOs7HYwATlzDi6sTRq1pd4194dJLQpWXGHZF3Nzmb8/1ivwFKYtqMRtiIynrK'',
        ''WqHQhLyOICUAiEINLwEhPgi2GHDemN2b+fItBzwNCDVLIG1uoVACFFNnB1VHqFBGkbi0GLUgyiTQnWsS'',
        ''gkQBpT1dD4k4DJ/DvDIvL0WWkcSwGqMGtqrWJtSlVgnVTsRMWSFLLqkN1HpHrRK4EkgomogQhOsZiTKj'',
        ''8na5DG5hpkLDEEpB/Br+wmANLPsicJAG86WC/XAEzTV7SQYhoVAOfaYVQfWMuiygKSjOXi7f5Bu15Sf4'',
        ''ekjGJzCGc7sP32W2L/fb+BUskIS7dQxwtnl5Baq6JZjVSEdUVcc+10vPDim0iyADpsEj6DDiqw6XyETb'',
        ''2RJGTzKBgeT9LXTQfSepS3OudDSsc06eU9VABY8JAqhYCI2Ib7CCiiUcqpy762v6YNzpyv+GH9n5RGe5'',
        ''unafOy1DfuImuWTp9TCNj/x6Zw3HhyEE07VOpgA3br6o9+ra148a9XoH9TP7ggaRgqFr5jHKISOQzZ4i'',
        ''TMW0hK+yIoV4IqGNiFEXRLBZaqn80EkyKiMEKiytJu1qQtyJjMosnyzBgpaqWDmpU1VFAfKZQiGGoBqz'',
        ''BkSF+8+tTU3AnsCdlAoWW5fxMAtm3TqC8AyBbDRL2RxQRcWDbN1G87dFNJunpJRQ2Zr8x+aNJsytLpw1'',
        ''bokodSHcTUqw6dUKtDG+AXd4/FbjtugjShwDRoI6UxZYpp9/weR596GzKWgAdaBk1I3xi3GAZFcdCIGZ'',
        ''DXh7AFqCQIxCeoALGGiqgdOgkpAKokMwlUxDLyXnVt5DICMLQ3Xn3yuh4oAPTCN9hbNIDcILtkSnVAba'',
        ''hSyqZSA20jX7fJVjA055JJZpXRIjiS7nTBU6yk+RMZs5F0AbMpcUHy0hwyAi8o4Ctf/CweuW8UwqxVHL'',
        ''ZGFnsJZUEnvrL3BDz19ItCTo1YuuYypEERYSFF2pGzommWghDFUiuSJYsRugrKAZnCZXHiSkEJaeIroV'',
        ''OatuYQGe+tVpQirfGEHyYaUjTAH67zTmCP4ANUNQAczAb7SMNGoTkLaTmuawLCsBVJ2gGkHTBRIAfesu'',
        ''KFdGoLbDaoGVddMxobDF4XBx1wGmbOakNHpexPFJrhsASwZRhH54wdwTKoLMA7c+7EOlGpYQFwmcLM99'',
        ''/DZ7cdiTjMoBhhpAlSdhc1ZOwaBE0aaWcsmmi/b22LiVedgoWLExzwnbPw/MvvC0cwIGZPDp9gFB05k4'',
        ''l8gdpAlM8DiQMgz2Po0H6YQw3QkwQgYWs1Fn1uuA97YMgIFqpNMQF1NECEFljVIQ9UsX1rJ4stI2i7GF'',
        ''/fc0fcdNnJ6NO7SfpIMLFy+71P4MKLf4Y5b7yP1CwEdDNCChq7gbpm2GiRgPNjRu6NC844dGlTolVUA5'',
        ''wfcP6ku3DeFfcDEWsd+wBuUd7bhealAiS98Kmh62DKpd/HV3fcTKBqbtmc997DhMvvwp13PobEtSKjOZ'',
        ''COpPTqjbS6y+qwmok5dPVAcOoDAtATCCGiAbw6EgFQdLxKOUpXXwCkxxM7q7FWnB9kClivd4ixpx+CIw'',
        ''/fw49sYihkY1gVwgUGL77+Hi674jbMuPOX0qWLkYG0j4tDBH3aBbAZ0BTg1RfuQalBIIbp3i12OAovzH'',
        ''0PLomhgkES9rEgxBe8KJx8zNcx+oT9sG7vXt5XoWomgJh0IolKuOjKu3HxxLuRaAp76ptOBgE0HeA6yS'',
        ''opYK06gY5OYG+8+tSN+TPvoQLgJ20Rpk3h6kCVLu/SrdjGzSYYvmEr7pg2EVtvvi6yShvCUl77RhVAQE'',
        ''QnwjZOVRE/ve8PuODSa/HK64uR2CaEHAiFsjSPai624u4ZZ+NrX2qs+vfRPz6HvfYfjxhs/NyENGGPYa'',
        ''BYKGPEwGZMvGI0/nuHzwhHodrAmv0d2JhSsUlEoFFxGd54L8FXv3403nq3gowt5oTlzDRiHROg2QUlA5'',
        ''8PxcVHAT1UAPSgfb3DwhQtKdtM2daDKjUfXMTuSTjuyL1w7lmHYUCrE1iVlX9lFp1kDiXW1vvOSXl9IU'',
        ''1CxlaMGD/pAVx88W1QuhOR7iudvHUaYa89t8C9005bReXv33bk6Tfgx3f/UWof6Nkj6JD+waPPPAQnHb'',
        ''Y71uvFfoBh19AxaReTt6VxOkNYCaTtYOIqWNjpMOqc6zDt9ieAoBUw7C9U+/I8I8h6AbAWQ4b1WyoA0q'',
        ''++sWxjw0ggfb4ssFLvGQw+SKRVOl7ReyFYxspWx1pAxr++r480jeJpJqGxXWGdfhYXjv8BjjhgN7/JxN'',
        ''lEM1CL1EbS2JU7VRnefHsBvr3fiXj+tTJihhEqQ59ShFnP3IY+fQqSOmZX8WpPnkTa03EyiJ8XyC4fcU'',
        ''KIme1plFQuLVxYwYAtD4Bjwklsdie+ssNGuOjcY7DV5pvI/dVjpNHua/Y7UoHQ2FSgMPXWn+GUM6YAwQ'',
        ''ZIzWIgIcOJQ6yo0ptF0xHqTsmpYNibEedQ0Bl9gAGY+fT1XVJTL9dZT/obFwCZvLZUADJ64ZTWXADABg'',
        ''5MpRHKCphDL0i5O2/Ype3YZsshmHbLVRixYSSxg2I4l7HTJxATgmVzvVphklMop50IIhZjKhx96vWYfv'',
        ''+vJeyiWr7r6qPx7b2/JpfAekS2nhG7KoeH1+NL1aTzCH9PRWv97x/91e+x5xET82bFFgfuvxtuuPqHKP'',
        ''G17CXMBJDEYiteFDk5o9XRNcpKTe/MN8v41rcPw6tzO5CmBT+nKO2ADps9/kHnUsqAo2UFYFg/zPzTjT'',
        ''1QAOjLDToIFADBwqkH+VeTQvOB8olH3FwmTUooZPPxw6O+ifPPPRqRNMNg1MCGzBZGFXzqVZpF1knXUl'',
        ''gCNmrshNKtGH/lnbhg8h2AakUQZ3js7jPwxS9tI7AtMYqQZVdELTVLzpem68n2Ye5Aug5TAwQaf3zqWe'',
        ''z03ct8Js61YfTph2DMqQeiwMoP9gdcCaw7o+9CJ5kCyOlkho1gnITHCxd34opJd2HKDQ+hrIpwtl0aWB'',
        ''PZzAzLv6k1C10CQP9x+LD+eOXpG31DqcaBwI+gLqCqAT4gABRetnMRnV4J0FQ0iHW70LlN0ISpl5yMw/'',
        ''b/LxSE7+Zxbm4MU7wZvXrOB2CT53oCIBNAY2iVIUtCXDDxTky49n6ktiQa4H8eGYdNNvkUCgWZA4c0ST'',
        ''xpJO/tT9UvB1SaMlabNWq5zrfffgfDdzgJWSVFMYgx+rQDcM6pB0HZTs8zYD+jOp12q4UxKbEK6UJO34'',
        ''bmRMMmMbKohJFnT8e1M34OS3ORGLBimDPLENLfoauTwQaG/i+GUgP8+SbPwpZePGvaB2D0Zny0v4wG4P'',
        ''OmNxYFCNMC0rgdLugEoiag7LDrl4bjZ3f9CCVy8gTAyXv+aeLkdI7zm+saD7J8NUufg2rdj/zUmDD5Pp'',
        ''w/+V7EBF2SJVjw4nT07u0zfpk4aFY237ev9Z24ZPaAzBNcOo6E3c2WLFmC/pt+F4raxJZx/uhDcfoJ+y'',
        ''EwzMMb7+3UKU1zbPiUm4lUysYJ6BiPjhhFEBSbb3MoXnqzTSIcJBrKFvwEE6pGJpwoAKGBTpUIwKw/39'',
        ''TVhmfNC4DgALkADDnYm4C8nat/QgmMY2esFI6OINOzqogoW4CHH7gOX9lqfe/JCulyaVfHam/lehpAWE'',
        ''EssfYcUJx/5U8xbtJP4NhzZ0CI1565TjbXN2FkaxW2is87iue/Z4LJawHr8QgqePYwcha9Nt0XlcUBXK'',
        ''WCcWcdjHPOPEBUdMounxG989pQNwEqtrr/N4c99/6vm/FbnHzGlcjCVmTJYmgTwagASdoOFAPJI3Q5gZ'',
        ''ak0L6Y+TR9APoylN41rQGWJwDdfIBqQ1Abl6GLTIiEsMTOdYohQ9fDzD9N9dJM7j9DRmn7Xp33uxLFn4'',
        ''rmwuPprCEdP+lOXHj1gzIgcotN1sPfH71U/i1JfYNqaovuzaq9P+AbO1VybWoiAAAcm0lEQVRNAEmlNA'',
        ''10Dkds9328PmcxQu1w1mn7YuwZ35PT29mRoNhEJ6WeH04T54dbEN1OM5/Mogl57fUF2GXv0/HG6wsEEr'',
        ''ZSTlYt+WZzLCbAuvkAmcKIYf3wMn2A6iHr6QLAvACTdhltmhAb6ORpZIono4Dzj/0yTh95uOQN6PkFTC'',
        ''SxPVpSRsg6e1e7CZLjKBgKALOIBhh/5XRcMvWXkl3ccfvN8cRPRvvTnfuS/G5SyCgM3PBKpYIoivJIwP'',
        ''fgks7mue+x077n4Kknn4eznRg75gCMPuUQFOErgWRMQR0fwHI6OQdUpka6ohMprbDhE4oYddZluPrHT3'',
        ''hfgs0kpHl2i6S/pdaAGEKYLnUCM4XhQ/viFfoApJtJHqEH1AWIGrYaesQRkowhTimZOtrm6pNfQaTUt0'',
        ''8fvPzURPQuRLBhKulcooiWzSBy9KtmGMj4QdR/IrmEcy+/Bxdf+wukWQUHfXcX/Piio2uHkXVYu0eeNA'',
        ''W3zfgZTFTEuacdhlEn7YeoQK1DR4WVy/VIpVZK2WOawNAhJGcxyTDrnQo22eZAP6GkTiBp2GGF/kCiMW'',
        ''zYAMx65uaeEwYKqNNdAMijFx/JyiYKo6PGIsvu4L23x82TjpeuoAHjfjab0MwjmPqMIilApQ/QCRMUMH'',
        ''7i/Rh35YPC2Rt70v4479Rv1RaAOtniE8+5Btfc/DO4RGH86CMw9rQDhG7GsvRAujrV+QCrPIcg9P3MiD'',
        ''SUE43Djj4f9/7qGUlifawFwPvQyVINkAuACqx49l1j2Fdwl2T9OG3wyF0nY/fttwInZ5DHFzJuD2kCag'',
        ''NB5AfSTkqb1TTDBZMfxLlXP4LQxbh67GE46ohdaz5fIpO11sSb78OpZ0+ReYLnjPwuzj/ze13pG3r1dT'',
        ''rciKZI0ImArV855UQ7TL/nSRx5wgSoAn9Xb/9ZFOqQEURLDYYM64vZf7m1B+EAQo9MRV3r4YfDEdtPaZ'',
        ''9oplxdAZAeOjbAV7YfjEfvPgdpnAkvwFbYTSyuy+tnnF1hyCwt1lJceO3PMGbyz4FyGx64YSz22r12J1'',
        ''Di7LXWtLufxDEjL0OWGYw/8yCcfcK+CEOf7iW+X6D9rrF4fRm1FMNPdvyxGiO2+g7mvE3yCpth1/HiXc'',
        ''qBOkiJJCXA8OEDMOsvt3QNmKjngtYRr8aBIA+i8uYAM/wIv+kiALkPUDfbwXAmgC473Dz5EBz8ze2hQh'',
        ''aAhShI4+w6UGsSQ1O9Cm3OYdyUeyQ5RLr0kft8CUMH9q/5DNIK++2ueL315hLcfPsvZKrYj878Hkafeo'',
        ''BP4BHZA6uW6wlAhlS4i5whBFx02R0474oZyDj7gFGvdIOqtTKID8BurB8UgG6t5ett9Ir+veFcQJcAsE'',
        ''PIiCP8FCRxynIfoJ6JUw4Fw4HOBuv1LuPFp6egGDYjNZ1otvUZPYqES6Jy+ayh3/1lFg467mK8O4+DHp'',
        ''l9qr1BZjH7GK548axn2sGodtx+w4XY91s7eiGXTD4LRWp74TQAMXkKkcKsN97HF//7MMxbxItNfFUpzV'',
        ''zN5XIB8E7gMhqgJwuAb2nJBi+1lRTj7zBgu/WKpE3OOfnrGHPC/jC6Hc5GwgKutcquEyXiB5I84CCmAM'',
        ''+9sAS7ffsHmF9hqra2BKol79b2EWKNPv1S3HXbFfjKDp/LAUdfi8CIhQSVWsuzpAlpA4efdClm3Pcb4T'',
        ''FKy1d+TL0ojrORaWYNASH6AP0w+6+3eryEPIE6SGk9zbDaNMDKCgD75LqI8GgZOihiQKk3nn5oDIav31'',
        ''dq4DnWtdaqKOWn87Iuj125ZNRKCX97cTG+fexovPl67cqcrC0v4lzBl7Q2N+NXj1yDbT89AIaVRipErA'',
        ''gzWehywFxNzSVoncvwt7+9iW2/9n2ZDiJMZnYSY7onqlc+TgFQIgAqZRjYH7OevVVwAOEJrGkBEARNEv'',
        ''8G6lNHyQYwb51JHxdfqFlr6SiGjvvSlUNCZ0m3YIcvrIvf3n4uinGGJPSpWaEE8tT4EhlkrA1gWTYbJ+'',
        ''Qj6Lq3rO/o6MCCBQuw48ETMXvmO9LJmxNDVVqE0rTLi/y1LXobmoUnpHmHMVSzglvCVKzCZkMG4Z4ZZ2'',
        ''GzzTYTTVQulwVO5vdVwSTem+dk+KHUxCR4HUxjU6vpIEFH3IKttz8Es15bKH5KZtkP2L+R5eU1NYj0X/'',
        ''CoJJtBjNigH155brrct1QH1Tvidf69YQ3gBcBz45YvALWvQFBCciWl7iEBwiLQsQC/vncS/nvr9aTuj/'',
        ''wAyeAx5yM1cr4ZBPF44ubcEP5/Fc71+X4rKN/LC5dg//0ux+y3ykgwF6oUwVWaiA1DhwnskreEx1cIm1'',
        ''CJ5VhCBQ4jNuiNh386HRsNZudv//mEkKsmibkF/t1/r3fkpIA0ZbKJji0bPidwuoAZd/0aRx43Ho6opr'',
        ''R8Y6d0gkjEOeoLQBcxtGcKADdPEv9Qm3zfZ9YyloWxSnMlghSeYM3hDxq6FMAmi4CkFZ8Z1Bd/ffJyRG'',
        ''nZTwMXAkfgy7HyyKm60dXWs348nT8x1eZUGebjldd74dsHj8LL78xDRolLMzSZItI2hbjjFXBQF7UVaw'',
        ''35WYMHNeHhB6/HiMG9Uci7fVeFixtdhX/9yay2wsuHPUpxg5/9E1fKmPW2xVe/fgDeeicWYbApu577rK'',
        ''NlCFiHEygaposZrDBiw3W6NEB1DmYjSqBxDSB9DPNBBp/6vn/4UqrFsIdp3jqXJ6SKTukELq+NykClBU'',
        ''Elwbgx+2LMsV9DJigffYEQLAii38XkcZUo+cFOZMtMKs06YbXBi3OX4JsHjsXM1xKYJgdXaYep9EFSni'',
        ''0VOywvoZM1bPAAPPTQjRgxuCStaX11UdB18rt/tlC4WCksdJ7u98nowOcxTxozDdfdcBt0sRcSdktPOj'',
        ''3OQRhZZKfOA2LBjZQEiGRhxKD+eOXvt0OxOOWj6L/QaK9g37/A5+5VdwHgCDV2M6xXHcoTK8mXCFY6Lf'',
        ''m8buQC9G4q4LnfTUT/3gR6OD6OraJp86lvrPQOVPx93hugugUy+p3es8lVLJuKqBQvvVnG946eiL+/+L'',
        ''YwlWT45PtzhXKuwwjDBw3Eow/dgiGDeJorMqBBTlnVBi9HlslHcBkRTy1JL8JinDDOaaAvvfImPvuFg+'',
        ''DIM+RQqYBREWulFDLG9hyZU6+DiQhAzpVwBhsP6o+XnutpAsD75oPa5CiJjznZhB68zICu1wvYcgJ3by'',
        ''GAmEKALOEwvTIU7WulhNOO3Rk/Ovu7KCARLzgjiUMGVGXQCesEvG32NpgOo8/3V/+fcwUDso61RadSOH'',
        ''HMLbj1nj8zgAI7+uh5b8KKybA47MA9ceM1pyNAu59T6Zq7mnBVzYsnjiwVOjarMpxCntD0sN8/IfBIXN'',
        ''Uf/vACTLvj98ikeQEHS+UTn2QuAMfJMWlSJw4UR48C453AjTbsh5f/MR0qC3uSBvBHQ216lE9pytRv+g'',
        ''ArIQCcvs1JGzIEp0Mwc/G4YwoBuYOLcf/08dhju+HM+Po2/BQGiQoYjHmH0HvjedeObn6AJGCktC5FxQ'',
        ''U4atQ1uOsX/4Okwv78EfS7L4qTidDh8IN3w/VXjYFJOmA44EIraQzBdHHV3/igQNMBpPPHPZa6SMOaqA'',
        ''i33/04jj9uDFJXhApJ8KBgs2eRNLkRJrNooDpAFW90qQBobLThgC4BaDgE+CjaxXcnJnoBIMChugSgro'',
        ''2zHVCmnx8I5RZCWY6GL/lSo2ARUCnhqzuuj4d/fIEvo6M6d+0ICKUm5OMvO5m8ejqrApG5GMZSA6SoqA'',
        ''A/GHUDZtzzN2iSQyvzYRa96iuOEOPQQ3bFLVPGS3dX35KHltefeBHw5ZoCCiDtuYUJmRZLYFHCZp/dA6'',
        ''+9kUJJbYRwjT2HnO30SEfPYqiSgeOYudqBoFgJmgwCaz1OAMjjcFGCBQiw4aY/QGL6yMO0nfNQVBuiXG'',
        ''S8TZk3cBz7biJPyeLDrZ8thinE0IubccOV38Nh+2zvq8Rkd2OkKUezMqnCamQtmWc5hYRuWY0hbdvaUE'',
        ''pb5E3vdMbYce9T8TKxH24waVfvvCKFLPRD/uvzQ3HH9EsxZIMSSvT+CdPlPlqcVBAVcupaPmiKY3B99K'',
        ''8kyaNIekUTxl8wAxdeejtstACKDaNrLWl1RzYQ/RYmP3jdGlFUEBqbFcSoKFnRQAEbDGzFy8/fJxZFCT'',
        ''tZiudWeTUcBVDNZ6YdFTTjCzudhZlvtCEpWJhiBUlnCTrzufA4phPEFCGdPF8RRwawrdOokTAqXze8fy'',
        ''889sAYDOrfJOlVm5UQMgYnWzbvo5RVyjD8H/bzE7Ip3WQWYHZi9tsKe+0/DnPmLUKnotnxBZrB/Nm+Zw'',
        ''PtetqOTTZeH7986A4MHdgMTVzCd570tQpSN+C5i2T3iGJQie9UpsrIsgLmvD4P39jrDLz48stAkU5onb'',
        ''oGOo0y/IJMKB4KZkA5JymH0lWLCAaZz6GuYMvNh+MPj98NAogEz3wl9qqvhgUg5jOi6TUZ3l+c4sbpD+'',
        ''PiSQ+jnUaxWUPLs+YQIY6OsUjTsjB3yA0k1g/O2KmxTBYiiyjpLTj3mN1w7sm7IHURXBawLQPzI/L9Mo'',
        ''qd7GI/UEt+R8dSO42X3m3H1w45F7PeYOTQKbgDN5bjYszcV5CSUyBNn5slHf2pYevgl7+6DYM2DPPJ9r'',
        ''xB8r/oLPrv4n3IpNBKiihi3yKiWQUce9xE/PiOB6U9Tsr8f70wuOIQtfKAtIuJUAHrAxhe8pqWAHFvmC'',
        ''hD/74GJx5/MM4+82hxl+JKJwoFbv4aJoXGroyQjg7dXt60SvDSO22YMOl+3Pvgs4jRDFh28orh4gQhq3'',
        ''lZBUwePoGfOnP7DGHlJtqZAgYYg6ceGYtPDVzHYy1CBvIVNDJXiA0lxNjwCbFZg8ILr8XY/8gL8c835w'',
        ''MF0tU0VGxQKIYoE4J845/QJhOOvgpb4Tjq1nVi+PBW3HnX1dhmi43kEcs+Wo82CtaRM5lp+5Xh1LQCXp'',
        ''w1D1t97iAkJkYqJ9jH7rVXgjAsIikzFCU4VJ2QUgDnJSn7Po75wSH40biRaG328wI9icUQzJSC2EZWwx'',
        ''rAwWfxJLXJk5gxa5nCmgDPPf8WvnvCVXjjzfehwxYCcMIeklhfGLAe+6+1IlVEohd70AQGu2/zafxy+k'',
        ''hPAQ4TmZ1pSbhkkyqWqLFARBR1Af/4xxvY4/sXY2FbhoqUWzmEhT5IKjxtnPBZAOb+DToi58Y/SHr0vA'',
        ''l2KG9uCTHj+gvw1V13QkjeKR03PnyGbtX5yJRlXUYlU/jMZ/bB3HkLUGEWMvTjXhmu1VpSHc36iaBZPl'',
        ''uyh9IZLMWXd9oZk686FSOGD0RB8iG0VdWScF/EUk+86glHwwIgrBYphueDYcdQ1uqzDwop4Bqp1rjjgW'',
        ''dwyTX34/lXFwEFqn262fSQuSW1baQmfh6XYQsdgOkL09aGx+86E1/adhhiVQY7eRYZ50vsT21g0WlacM'',
        ''cvn8dpY6diUQdbfC5AZJqRZa1+3jA1ATUQQ7HX/uVdfnYklZYzvq9gQE4CX6oW4vLLx+G4o74Fm7UjZE'',
        ''NgSrk0mGSpeIBMJ7h1xsM44cTLkLBptRSq0Efgc6iTrmFXsUAjK7O/cSj5jkHr98KNt0zATjttyXMuTq'',
        ''ZEI1QOqUUoSKLf2gaLgxtnBPnezewKknmJdLSHbdCqySOBVI/KYXFmcOnV9+PKqQ8hNf2lsZQKKnA0Bz'',
        ''UWVW1kI2SmDWklkgTOdhsNxMM/PU/8s2bSs6VfH0+RzxXedN+TOOW861C2fWRyR9BUQNZBdM74YYwczk'',
        ''jpi9+BeXde1+ApZgmzSgdMgRXCJGCwqI/FTQnOPvMYnDP6cPHW2fmEnyVaw2osWJTg/+3wHcx6Yy4cp4'',
        ''bqRYBtoRPgu4PVuj/DaqUQtpyif98iRo8+FiefeABskkifYzrAkv1kDiQvZ/PZUTrSeZq03jGv9f2NQs'',
        ''FsyMCMvPT2EdXF3UgRx+T0eRUlZyAPd1947X1cev29mPGLZ5Gw3Yp4ibUWy6dZY7gOYBhSlhBkFrtstw'',
        ''lMugRx8zqI47LkxlmftGhxBa+88oZw+KQcm7N5yxSOBCp0cJ0+mWBYUJIFSOc+n1OzaNsJN/uJ5n4OQB'',
        ''67M+sYADv/v21lXD3DP7asYwhYDN/GvHkBnntxJpRplX4+WYVtbFOotDdsWJtyFpgmWLsQJ55wEM4edS'',
        ''wG9Cp5Dosc8XyD81bBeacgOWxVOpmu0+ewnmx8BCag9ld02SlqTss+QLz8CLNfj3HoYSPx9Ns+tkacj5'',
        ''JnsEsUsZJCEaChupX+M3ntF1Vq3obFaCLxddrAVdOt0o8g70MobT09UQNvPlfvGdX+d+lO6otcJDUcJz'',
        ''BBKAKUxrmjS9aqREK+wygTW7REjPn3/uoITLrqCgwZ2r/qaeaOZl5NVC9X0NjVfwQmoM4F+BLnbsQwtk'',
        ''gTd8ar63vv+zsmXHMvXnxnYc6R4rMqMs7xlVE6QxS2okzUlHl5VgAxRcwEC7GFeoyIDwoAr1fas/jWcn'',
        ''jrfxt6hIStq7WGVV5AzlDNkUOFsBAhYX/joCRFIpyEPnDDJlx/3aX46he38uNiPaOtS1X69HdjHv7K3N'',
        ''h/QAMk0nCB8ThXyng78h4D/9B7L8cBLr3+CVx8w6PSYSTOFgNRERGp/ilh2tSHatI1xFOrYYpLm0fWul'',
        ''NusgADVVssqI80ohCI9/W/rsxzWvFrpJUph1jSSaOZydvX04wwS8wUMB0JAaYyrDegBWeOOhonnXigHA'',
        ''PS6cXqsHuJsIWY56BUs3HmWiIAAgMzZco9kGlf9JQzMFMnDRNUSaZtvP72Epw39RFMv+dx8YiTsATYNp'',
        ''iohKxcgYk4RLrNEz05NVyqjuqYABEAAfI9a6lKxc7NgHqttgDU4zMEOhChltCQVT78XKkBZHxILUM95x'',
        ''AEFscd812MPvs4rNu/CboaHeRyKeNolJXWcd3JL9X+BY1J6Yrfvdo1AFu4hV1TFgj+5+BVfuOJ6kTIZA'',
        ''r5AJL56sRLbyX4+uEXYc5bZaTUjwlLpQ3QyZAjhC4S/+6QaAPi6ddYAhBx87u9Jrf/1AJ49S8NPVtJGb'',
        ''CKKVMIo6L0HOLmSyTIZhQuwW57bIdJk87BxiPW8xNPqoeBAhNVqWzVy/DVyyR7rhUaQBIylTIKRR/Nuo'',
        ''wO0rLPnD5dwGk7KdBpC3Ko+do7fv4kJkx+HG+8PRdOa/ZS8iEcW84wtUr8qc74+a7qXZ7+LivADSOjyM'',
        ''HNebohARBAK885UAOExcg3s84qGDZsCG68/nzstPPncz6P/16ecm8PCfvEkv6u8hg8/9BT2rqTXBu7yD'',
        ''WoAarAVcYWKXLjoS+t5l/ZVZ1hIntASyu1NlGVCZpgifUriw6tccXUR3DRxJ+jwjCL3TpdB7RphkmbkO'',
        ''j2OhrAcwSX+gB5BFD1Aeb8saFna8hTlDnBDoWIrdwq6Nu3hNFjTsOxR38HEbuJcNRVPtKA98xtr9r5Kr'',
        ''m0O4nlP7Hx1Zte7Sag2h2LgAyhi5TNnYU1ywdDGJnxNpMatKFV+Jz20AMtUjyhgRfeL+NHU+7FvT//G9'',
        ''KU3bbZZHqRtIqtbQJWrwBI1semKDYVUF7yHs4bfwZOOOFQtLTQq7cIqdEEH2HKNye2yk+L2LK2sPTv3U'',
        ''O6bqjxHkD1pHv1C0C9K6jz7/SQSddiOMiYYeZbDkeceCH+8tJ7qGgmofy0Do6SJz/QiuvNOroYJjLI2J'',
        ''W1SE89AUe9I4uk2ISNKAnq2Nm/gQ4Kvt071RGpaRGpZdIvTE6q+HJ5CZ+gcTKkioee2UZqsoqo+Ruuvx'',
        ''zDh6znvfuqmm8UrG/w+dV7e48XACmtJukhH5KZIpXf3P+rv+OSK2bgX3N5wjuhTROySgHadci0cR0VEG'',
        ''YGFXp/kqr1iR5p7SYoG7t0VuBm/cWjf+ToE94l9z+KZDyNYRUwCRvCGaSD77mGltw+TjMPQ2y99VBcfN'',
        ''F47LTzZ7vsvKAe/Ar+Wf2RXL09rvnvPV4APPzJhEh1+FMBSWqkKIRl2uOmPIzr73oMi9qtVOuAPYMRQW'',
        ''MJKiHRwyoJJUTALt7MPQhpoCJtX6I3/iXIW7WwhPMIVMBY3vnmk5XFIkzE5unZF4TfV8Y6A3rhjDNPx8'',
        ''iT9l4621EKVZbuuOSM6gFVDW1f42/u8QIgznLKYVH+ZhVLrSXPSvg4gSuGeOuddpwz6QHc+uCfvdrnC3'',
        ''UTFP+ddQaSh+YbAoSa9QeeOezowb/ylMcH5JT7I8v5RAJDEgTQnTCm6ImZ0rnU4uyzT8APf3goevcJJF'',
        ''vnF00Px8j7ZlMfl9XzBYDoH4qeOlCd4MmyaAIpgrFkHCAsWb+Z7zrsfdJU/OOfr3u1T8eSQx242HxSsa'',
        ''rIb6QPPwIEr/0RKV10vprdxqXGIEAi+L2fEWgoIDrGdtttgVunXYMhQ3rB5IwU3yZOS+JJS4PDqtr31U'',
        ''GNNnFa3YJEAZgNYNjq/qJV/vwu4oX1XcBZJCGZX2YUEmRs2Ro7jxLKPrfjJ7/8B8Zf8zBmvvo2Ij3An3'',
        ''gmamScDTkD7HDty8HUnGfyzff8fGL2UamAuLMNphBCxQE+/7mNceVV47DDDpsiTTqEClYN48Sa5BVeBI'',
        ''QIc/vFamVyDhqbWbTKz23l3jiHAvAYgF1W7vVr4FXVkqv8cPlTRQ/d/9SuiA7S+tkHWFQ3uXvEDwJccs'',
        ''uTmPbj+/D2e51IsgJUqcUTLll4wn1iD+DZf4RlJpJFpsITyJDFSxCUDFpaSxh/1kgcc+yBvhxNRsHnRa'',
        ''LMRXS7Nj6ZatNpmS7arffgGnhqK/uVj/d4AcjkFPlZQtUycapbGS1HIEmmlZBiJjRjaU0nkDJDQ5vgr/'',
        ''M1rpg0Hff9/K9IsmagUIRirYBLYSsJ1OtPyNxJQszisjNlq8oYe97p+MFRh2JI/yUevOKsQFYAMTvdNU'',
        ''yaqSuCP0m12ak3IUz9snYp7yW4sruxBl53KwXgcADT1sCX/2e+ki5EBLw8v0Naxzz7r/lwdCY4r69SAV'',
        ''56BmSuGJafI8YuO34BN1x3sfTklS4ODfLu/zM3ucrfcgQFgPaffsBaucrp+ygE/UVB0C38yYPP4vIpv8'',
        ''aLbyxAGrUBLz4DbRJ8bsuNcPllY7Hzlz7vQ/c8idgw67JnP9Xh4rH0eD+ggYfYgTJJZFAJfQPPX12UWU'',
        ''y66VeYetNjwFtP4bQzjsepIw8WBE+z7KRSkSnl1Ak9PY5v4NEw9PX5sbXaDFQdtS6HjSRVxgMFzJrzPg'',
        ''a0FNB/QAsSdinlWBZfAJDDwB47WEvXOKXU+KoArMVmgBO8OcZOgjzBFSV2l3idRoExPH8bSjgnuL909m'',
        ''ZOnoajzvTxj6l0VA9/V6pibdUCMqpXxtH41nwkZDoXQxERzGP47nvIoRIUCoI/Psn0Md3h2pctp58v6S'',
        ''4A1ALEBHouKLQKe0HSDQ0dmUZCIVNNSGLSxZn/YYtb/qWq9gkuVesA8y/r4dm8VXgkYvur71vm9tZKLc'',
        ''BCEF30s4pII7SZ7/Kde/pdmy9NJaqOAoWAcwU4Wq6HZ3M+vAR8WSn1+HIFIHcIzwMw7sN/7ifv+Bg8gS'',
        ''7Vv0IB+EQIPgbbuGqX+LhS6ssffOtyLVwODh32iSZYtSfdA9+13M1fxglc3kU75z4xBz1wNz/kJf2b2u'',
        ''/+/ro+rnOOmULmCtaq6OBDPsSP48vnADiiu8O3vJuoKwC5T8DN/8QkfDzEgBt/azXOr3fJKyUA1Q/p5h'',
        ''tQK/RcDkG9u147//1DbXzNKGBlnk8uDBSCnXPzQC3xiZlYmYfX2Gu40Vz8KX9W9rQv72v/Py707GePz0'',
        ''qlAAAAAElFTkSuQmCC'']"

text \<open>
  \<^verbatim>\<open>cryptoDefiWallet\<close> (lines 80 to 116). The static property \<^verbatim>\<open>CryptoDefiWallet.id\<close> of
  the imported class is the first parameter. The arrow function \<^verbatim>\<open>create\<close> closes over
  \<^verbatim>\<open>options\<close>: it constructs the wallet, registers the session-request handler for it and
  returns it.
\<close>

definition cryptoDefiWallet ::
  "string \<Rightarrow> 'q CryptoDefiWalletConfigOptions option \<Rightarrow> ('w, 'q, 'p) WalletConfig" where
  "cryptoDefiWallet CryptoDefiWallet_id options =
     \<lparr> id' = CryptoDefiWallet_id,
       recommended = options \<bind> CryptoDefiWalletConfigOptions.recommended,
       meta =
         \<lparr> name = ''Crypto Defi Wallet'',
           urls =
             [(''chrome'',
               ''https://chrome.google.com/webstore/detail/cryptocom-wallet-extensio/hifafgmccdpekplomjjkcfgodnhcellj''),
              (''android'',
               ''https://play.google.com/store/apps/details?id=com.defi.wallet''),
              (''ios'', ''https://apps.apple.com/us/app/crypto-com-l-defi-wallet/id1512048310'')],
           iconURL = cryptoDefiWallet_iconURL \<rparr>,
       create = (\<lambda>walletOptions h.
         let (wallet, h1) = new_CryptoDefiWallet
               \<lparr> baseOptions = walletOptions,
                 projectId = options \<bind> CryptoDefiWalletConfigOptions.projectId,
                 qrcode = (if truthy (options \<bind> wcModal) then True else False),
                 qrModalOptions =
                   (if typeof (options \<bind> wcModal) = ''object''
                    then options \<bind> wcModal \<bind> get_qrModalOptions
                    else None) \<rparr> h;
             h2 = handelWCSessionRequest wallet cryptoDefiWalletUris h1
         in (wallet, h2)),
       connectUI = ConnectUI,
       isInstalled = isWalletInstalled \<rparr>"

subsection \<open>The module-level mapping as an object in the store\<close>

text \<open>
  The binding \<^verbatim>\<open>cryptoDefiWalletUris\<close> is \<^verbatim>\<open>const\<close>, but what it is bound to is an ordinary
  JavaScript object, which an assignment to one of its properties would change. To
  state that no operation of the file does so, the state of the module puts the
  current contents of that object beside the host, and the operations that mention
  the binding read the contents from there. The definition \<open>cryptoDefiWalletUris\<close>
  above is the object literal, which the evaluation of the module (lines 15 to 19)
  stores. The operations below carry a prime: they are the operations above, run on
  the state of the module.
\<close>

record ('w, 'q, 'p) module_state =
  uris_object :: "(string \<times> string) list"
  environment :: "('w, 'q, 'p) host"

definition module_evaluation :: "('w, 'q, 'p) host \<Rightarrow> ('w, 'q, 'p) module_state" where
  "module_evaluation h = \<lparr> uris_object = cryptoDefiWalletUris, environment = h \<rparr>"

text \<open>
  The body of \<^verbatim>\<open>create\<close> (lines 98 to 112) for the options that \<^verbatim>\<open>cryptoDefiWallet\<close> was
  called with. The adapter is given the object that the binding refers to.
\<close>

definition create' ::
  "'q CryptoDefiWalletConfigOptions option \<Rightarrow> 'w \<Rightarrow> ('w, 'q, 'p) module_state \<Rightarrow>
     ref \<times> ('w, 'q, 'p) module_state" where
  "create' options walletOptions m =
     (let (wallet, h1) = new_CryptoDefiWallet
            \<lparr> baseOptions = walletOptions,
              projectId = options \<bind> CryptoDefiWalletConfigOptions.projectId,
              qrcode = (if truthy (options \<bind> wcModal) then True else False),
              qrModalOptions =
                (if typeof (options \<bind> wcModal) = ''object''
                 then options \<bind> wcModal \<bind> get_qrModalOptions
                 else None) \<rparr> (environment m);
          h2 = handelWCSessionRequest wallet (uris_object m) h1
      in (wallet, m\<lparr>environment := h2\<rparr>))"

text \<open>\<^verbatim>\<open>isWalletInstalled\<close> (lines 118 to 120); it does not mention the binding.\<close>

definition isWalletInstalled' ::
  "('w, 'q, 'p) module_state \<Rightarrow> bool \<times> ('w, 'q, 'p) module_state" where
  "isWalletInstalled' m =
     (case getInjectedCryptoDefiWalletProvider (environment m) of
        (provider, h') \<Rightarrow> (\<not> \<not> (provider \<noteq> None), m\<lparr>environment := h'\<rparr>))"

text \<open>
  The component \<^verbatim>\<open>ConnectUI\<close> (lines 122 to 141). Its argument has the imported type
  \<^verbatim>\<open>ConnectUIProps\<close>: the record below has the properties that the component reads, of
  types left open where the file says nothing about them. The element it returns is
  the record of the properties given to the imported component
  \<^verbatim>\<open>ExtensionOrWCConnectionUI\<close>; the properties \<^verbatim>\<open>meta\<close> and \<^verbatim>\<open>isInstalled\<close> of the
  element carry a prime, the configuration having fields of these names. The value
  \<^verbatim>\<open>locale.wallets.cryptoDefiWallet\<close> of the locale that the hook \<^verbatim>\<open>useTWLocale\<close> returns
  is a parameter.
\<close>

record ('connect, 'createInstance, 'goBack, 'wallet, 'r, 'setStatus, 'supported, 'w, 'q, 'p)
    ConnectUIProps =
  connect :: 'connect
  connected :: bool
  createWalletInstance :: 'createInstance
  goBack :: 'goBack
  walletConfig :: "('w, 'q, 'p) WalletConfig"
  setConnectedWallet :: "'wallet \<Rightarrow> 'r"
  setConnectionStatus :: 'setStatus
  supportedWallets :: 'supported

record ('connect, 'createInstance, 'goBack, 'wallet, 'r, 'setStatus, 'supported, 'l, 'w, 'q, 'p)
    ExtensionOrWCConnectionUI =
  connect :: 'connect
  connected :: bool
  createWalletInstance :: 'createInstance
  goBack :: 'goBack
  meta' :: WalletMeta
  setConnectedWallet :: "'wallet \<Rightarrow> 'r"
  setConnectionStatus :: 'setStatus
  supportedWallets :: 'supported
  walletConnectUris :: "(string \<times> string) list"
  walletLocale :: 'l
  isInstalled' :: "('w, 'q, 'p) module_state \<Rightarrow> bool \<times> ('w, 'q, 'p) module_state"

definition ConnectUI' ::
  "('connect, 'createInstance, 'goBack, 'wallet, 'r, 'setStatus, 'supported, 'w, 'q, 'p)
     ConnectUIProps \<Rightarrow> 'l \<Rightarrow> ('w, 'q, 'p) module_state \<Rightarrow>
   ('connect, 'createInstance, 'goBack, 'wallet, 'r, 'setStatus, 'supported, 'l, 'w, 'q, 'p)
     ExtensionOrWCConnectionUI \<times> ('w, 'q, 'p) module_state" where
  "ConnectUI' props locale_wallets_cryptoDefiWallet m =
     (\<lparr> connect = ConnectUIProps.connect props,
        connected = ConnectUIProps.connected props,
        createWalletInstance = ConnectUIProps.createWalletInstance props,
        goBack = ConnectUIProps.goBack props,
        meta' = meta (walletConfig props),
        setConnectedWallet = (\<lambda>w. ConnectUIProps.setConnectedWallet props w),
        setConnectionStatus = ConnectUIProps.setConnectionStatus props,
        supportedWallets = ConnectUIProps.supportedWallets props,
        walletConnectUris = uris_object m,
        walletLocale = locale_wallets_cryptoDefiWallet,
        isInstalled' = isWalletInstalled' \<rparr>, m)"

text \<open>
  A run of the module: after its evaluation, any sequence of calls of the three
  operations, each with any arguments. (A call of \<^verbatim>\<open>cryptoDefiWallet\<close> itself only
  builds the configuration object, whose \<^verbatim>\<open>create\<close> is called with the options given
  then.)
\<close>

datatype ('connect, 'createInstance, 'goBack, 'wallet, 'r, 'setStatus, 'supported, 'l, 'w, 'q, 'p)
    operation =
    Create "'q CryptoDefiWalletConfigOptions option" 'w
  | IsInstalled
  | Render "('connect, 'createInstance, 'goBack, 'wallet, 'r, 'setStatus, 'supported, 'w, 'q, 'p)
      ConnectUIProps" 'l

fun step ::
  "('connect, 'createInstance, 'goBack, 'wallet, 'r, 'setStatus, 'supported, 'l, 'w, 'q, 'p)
     operation \<Rightarrow> ('w, 'q, 'p) module_state \<Rightarrow> ('w, 'q, 'p) module_state" where
  "step (Create options walletOptions) m = snd (create' options walletOptions m)"
| "step IsInstalled m = snd (isWalletInstalled' m)"
| "step (Render props l) m = snd (ConnectUI' props l m)"

section \<open>The generated binding of the ERC4626 read function \<^verbatim>\<open>totalAssets\<close>\<close>

text \<open>
  Embedding of the decoder of \<^verbatim>\<open>src/unnamed/part_001\<close>. The constant \<^verbatim>\<open>FN_OUTPUTS\<close>
  (lines 9 to 15) is a list with one ABI parameter.
\<close>

record AbiParameter =
  name :: string
  type' :: string
  internalType :: string

definition FN_OUTPUTS :: "AbiParameter list" where
  "FN_OUTPUTS =
     [\<lparr> AbiParameter.name = ''totalManagedAssets'',
        type' = ''uint256'',
        internalType = ''uint256'' \<rparr>]"

text \<open>
  An indexed read \<^verbatim>\<open>xs[i]\<close> of a JavaScript array: \<^verbatim>\<open>undefined\<close> out of range.
\<close>

definition array_get :: "'a list \<Rightarrow> nat \<Rightarrow> 'a option" where
  "array_get xs i = (if i < length xs then Some (xs ! i) else None)"

text \<open>
  \<^verbatim>\<open>decodeTotalAssetsResult\<close> (lines 28 to 30). The function \<^verbatim>\<open>decodeAbiParameters\<close> is
  imported from the library \<^verbatim>\<open>viem\<close> and is a parameter here: it takes the parameter
  list and the hexadecimal string, and either throws (\<open>Inl\<close>) or returns the array of
  decoded values (\<open>Inr\<close>). The source has no handler, so what the library throws
  propagates.
\<close>

definition decodeTotalAssetsResult ::
  "(AbiParameter list \<Rightarrow> string \<Rightarrow> 'e + 'v list) \<Rightarrow> string \<Rightarrow> 'e + 'v option" where
  "decodeTotalAssetsResult decodeAbiParameters result =
     (case decodeAbiParameters FN_OUTPUTS result of
        Inl e \<Rightarrow> Inl e
      | Inr decoded \<Rightarrow> Inr (array_get decoded 0))"

section \<open>Properties of the wallet configurator\<close>

subsection \<open>What \<^verbatim>\<open>create\<close> computes\<close>

text \<open>
  The result of \<^verbatim>\<open>create\<close> in closed form: the reference of the new instance and the
  host extended by the instance and by one registration.
\<close>

lemma create_unfold:
  "create (cryptoDefiWallet cid options) walletOptions h =
     (length (instances h),
      h\<lparr>instances := instances h @
           [\<lparr> baseOptions = walletOptions,
              projectId = options \<bind> CryptoDefiWalletConfigOptions.projectId,
              qrcode = truthy (options \<bind> wcModal),
              qrModalOptions =
                (if typeof (options \<bind> wcModal) = ''object''
                 then options \<bind> wcModal \<bind> get_qrModalOptions
                 else None) \<rparr>],
         sessionRequestHandlers :=
           sessionRequestHandlers h @ [(length (instances h), cryptoDefiWalletUris)]\<rparr>)"
  by (simp add: cryptoDefiWallet_def new_CryptoDefiWallet_def handelWCSessionRequest_def)

lemma wallet_at_new:
  "wallet_at (h\<lparr>instances := instances h @ [w], sessionRequestHandlers := rs\<rparr>)
     (length (instances h)) = Some w"
  by (simp add: wallet_at_def)

lemma wallet_at_fresh: "wallet_at h (length (instances h)) = None"
  by (simp add: wallet_at_def)

text \<open>The three operators on \<^verbatim>\<open>options?.wcModal\<close>, by cases of its value.\<close>

lemma truthy_cases:
  "truthy x \<longleftrightarrow> x = Some (WcBoolean True) \<or> (\<exists>obj. x = Some (WcObject obj))"
  by (cases x rule: truthy.cases) auto

lemma not_truthy_cases:
  "\<not> truthy x \<longleftrightarrow> x = None \<or> x = Some (WcBoolean False)"
  by (cases x rule: truthy.cases) auto

lemma typeof_object_cases:
  "(if typeof x = ''object'' then x \<bind> get_qrModalOptions else None) =
     (case x of Some (WcObject obj) \<Rightarrow> wcModalObject.qrModalOptions obj | _ \<Rightarrow> None)"
  by (cases x rule: typeof.cases) simp_all

subsection \<open>The QR toggle and the modal options\<close>

text \<open>
  Claim C1. For every options value (also when no options are given), every
  \<^verbatim>\<open>walletOptions\<close> and every host, the instance that \<^verbatim>\<open>create\<close> returns has \<^verbatim>\<open>qrcode\<close>
  true if and only if \<^verbatim>\<open>options?.wcModal\<close> is the boolean true or an object, and false
  if and only if it is \<^verbatim>\<open>undefined\<close> or the boolean false.
\<close>

theorem create_qrcode_iff_wcModal_truthy:
  "case create (cryptoDefiWallet cid options) walletOptions h of
     (wallet, h') \<Rightarrow>
       \<exists>w. wallet_at h' wallet = Some w \<and>
         (qrcode w = True \<longleftrightarrow>
            (options \<bind> wcModal = Some (WcBoolean True) \<or>
             (\<exists>obj. options \<bind> wcModal = Some (WcObject obj)))) \<and>
         (qrcode w = False \<longleftrightarrow>
            (options \<bind> wcModal = None \<or>
             options \<bind> wcModal = Some (WcBoolean False)))"
proof -
  define x where "x = options \<bind> wcModal"
  have on: "truthy x \<longleftrightarrow> x = Some (WcBoolean True) \<or> (\<exists>obj. x = Some (WcObject obj))"
    by (rule truthy_cases)
  have off: "\<not> truthy x \<longleftrightarrow> x = None \<or> x = Some (WcBoolean False)"
    by (rule not_truthy_cases)
  from on off show ?thesis
    unfolding create_unfold x_def by (simp add: wallet_at_new)
qed

text \<open>
  Claim C2. For every options value, the \<^verbatim>\<open>qrModalOptions\<close> that \<^verbatim>\<open>create\<close> passes to the
  wallet-client constructor is \<^verbatim>\<open>options.wcModal.qrModalOptions\<close> when \<^verbatim>\<open>wcModal\<close> is an
  object and \<^verbatim>\<open>undefined\<close> in every other case. In particular, for the options
  \<^verbatim>\<open>{wcModal: {qrModalOptions: {themeMode: "dark"}}}\<close> the instance has \<^verbatim>\<open>qrcode\<close> true and
  \<^verbatim>\<open>qrModalOptions\<close> equal to \<^verbatim>\<open>{themeMode: "dark"}\<close>.
\<close>

theorem create_forwards_qrModalOptions:
  "(case create (cryptoDefiWallet cid options) walletOptions h of
      (wallet, h') \<Rightarrow>
        \<exists>w. wallet_at h' wallet = Some w \<and>
          CryptoDefiWalletOptions.qrModalOptions w =
            (case options \<bind> wcModal of
               Some (WcObject obj) \<Rightarrow> wcModalObject.qrModalOptions obj
             | _ \<Rightarrow> None)) \<and>
   (case create
           (cryptoDefiWallet cid
              (Some \<lparr> CryptoDefiWalletConfigOptions.projectId = None,
                      CryptoDefiWalletConfigOptions.recommended = None,
                      wcModal = Some (WcObject
                        \<lparr> wcModalObject.qrModalOptions = Some [(''themeMode'', ''dark'')] \<rparr>) \<rparr>))
           walletOptions' h0 of
      (wallet, h') \<Rightarrow>
        \<exists>w. wallet_at h' wallet = Some w \<and>
          qrcode w = True \<and>
          CryptoDefiWalletOptions.qrModalOptions w = Some [(''themeMode'', ''dark'')])"
  by (simp add: create_unfold wallet_at_new typeof_object_cases)

subsection \<open>Provider detection\<close>

text \<open>
  Claim C3. \<^verbatim>\<open>isWalletInstalled\<close>, which is also the \<^verbatim>\<open>isInstalled\<close> of every
  configuration, returns true if and only if the host has an injected provider object
  at the time of the call, and false otherwise; it leaves the host unchanged, and it
  has a result for every host.
\<close>

theorem isWalletInstalled_iff_provider_present:
  "fst (isWalletInstalled h) = (\<exists>provider. injectedProvider h = Some provider) \<and>
   snd (isWalletInstalled h) = h \<and>
   isInstalled (cryptoDefiWallet cid options) h = isWalletInstalled h"
  by (simp add: isWalletInstalled_def getInjectedCryptoDefiWalletProvider_def
      cryptoDefiWallet_def)

subsection \<open>Registration of the session-request adapter\<close>

text \<open>
  Claim C4. For every options and \<^verbatim>\<open>walletOptions\<close> value, \<^verbatim>\<open>create\<close> returns an instance
  that did not exist before the call and exists after it, and the host it returns with
  the instance has, as its newest registration, \<^verbatim>\<open>handelWCSessionRequest\<close> for that
  instance with the mapping \<^verbatim>\<open>cryptoDefiWalletUris\<close>.
\<close>

theorem create_registers_session_request_adapter:
  "case create (cryptoDefiWallet cid options) walletOptions h of
     (wallet, h') \<Rightarrow>
       wallet_at h wallet = None \<and>
       (\<exists>w. wallet_at h' wallet = Some w) \<and>
       sessionRequestHandlers h' =
         sessionRequestHandlers h @ [(wallet, cryptoDefiWalletUris)]"
proof -
  obtain wallet h' where
    r: "create (cryptoDefiWallet cid options) walletOptions h = (wallet, h')"
    by (cases "create (cryptoDefiWallet cid options) walletOptions h")
  from r have fresh: "wallet = length (instances h)"
    by (simp add: create_unfold)
  from r have handlers:
    "sessionRequestHandlers h' = sessionRequestHandlers h @ [(wallet, cryptoDefiWalletUris)]"
    by (auto simp: create_unfold)
  from r have "\<exists>w. wallet_at h' wallet = Some w"
    by (auto simp: create_unfold wallet_at_new)
  with r fresh handlers show ?thesis
    by (simp add: wallet_at_fresh)
qed

subsection \<open>The deep-link mapping\<close>

text \<open>
  The primed operations in closed form, and their agreement with the operations on the
  host when the module has just been evaluated.
\<close>

lemma create'_unfold:
  "create' options walletOptions m =
     (length (instances (environment m)),
      m\<lparr>environment :=
          (environment m)
            \<lparr>instances := instances (environment m) @
               [\<lparr> baseOptions = walletOptions,
                  projectId = options \<bind> CryptoDefiWalletConfigOptions.projectId,
                  qrcode = truthy (options \<bind> wcModal),
                  qrModalOptions =
                    (if typeof (options \<bind> wcModal) = ''object''
                     then options \<bind> wcModal \<bind> get_qrModalOptions
                     else None) \<rparr>],
             sessionRequestHandlers :=
               sessionRequestHandlers (environment m) @
                 [(length (instances (environment m)), uris_object m)]\<rparr>\<rparr>)"
  by (simp add: create'_def new_CryptoDefiWallet_def handelWCSessionRequest_def)

lemma create'_agrees:
  "create' options walletOptions (module_evaluation h) =
     (case create (cryptoDefiWallet cid options) walletOptions h of
        (wallet, h') \<Rightarrow> (wallet, module_evaluation h'))"
  by (simp add: create'_unfold create_unfold module_evaluation_def)

lemma isWalletInstalled'_agrees:
  "isWalletInstalled' (module_evaluation h) =
     (case isWalletInstalled h of (installed, h') \<Rightarrow> (installed, module_evaluation h'))"
  by (simp add: isWalletInstalled'_def isWalletInstalled_def
      getInjectedCryptoDefiWalletProvider_def module_evaluation_def)

text \<open>No operation changes the object, so no run does.\<close>

lemma step_uris_object: "uris_object (step operation m) = uris_object m"
proof (cases operation)
  case (Create options walletOptions)
  then show ?thesis by (simp add: create'_unfold)
next
  case IsInstalled
  then show ?thesis
    by (simp add: isWalletInstalled'_def getInjectedCryptoDefiWalletProvider_def)
next
  case (Render props l)
  then show ?thesis by (simp add: ConnectUI'_def)
qed

lemma fold_step_uris_object: "uris_object (fold step operations m) = uris_object m"
proof (induction operations arbitrary: m)
  case Nil
  show ?case by simp
next
  case (Cons operation operations)
  have "uris_object (fold step (operation # operations) m) =
        uris_object (fold step operations (step operation m))"
    by simp
  also have "\<dots> = uris_object (step operation m)"
    by (rule Cons.IH)
  also have "\<dots> = uris_object m"
    by (rule step_uris_object)
  finally show ?case .
qed

text \<open>
  Claim C5. \<^verbatim>\<open>cryptoDefiWalletUris\<close> maps exactly the keys \<^verbatim>\<open>ios\<close>, \<^verbatim>\<open>android\<close> and
  \<^verbatim>\<open>other\<close>, each to the string \<^verbatim>\<open>dfw://\<close>, so each value begins with the scheme
  \<^verbatim>\<open>dfw://\<close>. The evaluation of the module stores this mapping, and no operation of the
  file changes the stored object: \<^verbatim>\<open>create\<close>, \<^verbatim>\<open>isWalletInstalled\<close> and \<^verbatim>\<open>ConnectUI\<close>, with
  any arguments and in any state, leave it as it was, while \<^verbatim>\<open>create\<close> gives it to the
  adapter and \<^verbatim>\<open>ConnectUI\<close> gives it to the component as \<^verbatim>\<open>walletConnectUris\<close>. So after
  every run of the module the object still holds the mapping, with the three
  \<^verbatim>\<open>dfw://\<close> values. On a module that has just been evaluated, \<^verbatim>\<open>create\<close> and
  \<^verbatim>\<open>isWalletInstalled\<close> do what they do on the host.
\<close>

theorem cryptoDefiWalletUris_fixed_and_never_mutated:
  "map fst cryptoDefiWalletUris = [''ios'', ''android'', ''other''] \<and>
   map_of cryptoDefiWalletUris ''ios'' = Some ''dfw://'' \<and>
   map_of cryptoDefiWalletUris ''android'' = Some ''dfw://'' \<and>
   map_of cryptoDefiWalletUris ''other'' = Some ''dfw://'' \<and>
   map (take 6 \<circ> snd) cryptoDefiWalletUris = [''dfw://'', ''dfw://'', ''dfw://''] \<and>
   uris_object (module_evaluation h) = cryptoDefiWalletUris \<and>
   uris_object (snd (create' options walletOptions m)) = uris_object m \<and>
   uris_object (snd (isWalletInstalled' m)) = uris_object m \<and>
   uris_object (snd (ConnectUI' props l m)) = uris_object m \<and>
   snd (last (sessionRequestHandlers (environment (snd (create' options walletOptions m))))) =
     uris_object m \<and>
   walletConnectUris (fst (ConnectUI' props l m)) = uris_object m \<and>
   uris_object (fold step operations (module_evaluation h)) = cryptoDefiWalletUris \<and>
   map (take 6 \<circ> snd) (uris_object (fold step operations (module_evaluation h))) =
     [''dfw://'', ''dfw://'', ''dfw://''] \<and>
   create' options walletOptions (module_evaluation h) =
     (case create (cryptoDefiWallet cid options) walletOptions h of
        (wallet, h') \<Rightarrow> (wallet, module_evaluation h')) \<and>
   isWalletInstalled' (module_evaluation h) =
     (case isWalletInstalled h of (installed, h') \<Rightarrow> (installed, module_evaluation h'))"
proof -
  have contents:
    "map fst cryptoDefiWalletUris = [''ios'', ''android'', ''other'']"
    "map_of cryptoDefiWalletUris ''ios'' = Some ''dfw://''"
    "map_of cryptoDefiWalletUris ''android'' = Some ''dfw://''"
    "map_of cryptoDefiWalletUris ''other'' = Some ''dfw://''"
    "map (take 6 \<circ> snd) cryptoDefiWalletUris = [''dfw://'', ''dfw://'', ''dfw://'']"
    by (simp_all add: cryptoDefiWalletUris_def)
  have loaded: "uris_object (module_evaluation h) = cryptoDefiWalletUris"
    by (simp add: module_evaluation_def)
  have frame_create: "uris_object (snd (create' options walletOptions m)) = uris_object m"
    using step_uris_object [of "Create options walletOptions" m] by simp
  have frame_installed: "uris_object (snd (isWalletInstalled' m)) = uris_object m"
    using step_uris_object [of IsInstalled m] by simp
  have frame_render: "uris_object (snd (ConnectUI' props l m)) = uris_object m"
    using step_uris_object [of "Render props l" m] by simp
  have given_adapter:
    "snd (last (sessionRequestHandlers (environment (snd (create' options walletOptions m))))) =
       uris_object m"
    by (simp add: create'_unfold)
  have given_component: "walletConnectUris (fst (ConnectUI' props l m)) = uris_object m"
    by (simp add: ConnectUI'_def)
  have run: "uris_object (fold step operations (module_evaluation h)) = cryptoDefiWalletUris"
    using fold_step_uris_object [of operations "module_evaluation h"] loaded by simp
  have scheme:
    "map (take 6 \<circ> snd) (uris_object (fold step operations (module_evaluation h))) =
       [''dfw://'', ''dfw://'', ''dfw://'']"
    using run contents(5) by simp
  note agree = create'_agrees [of options walletOptions h cid] isWalletInstalled'_agrees [of h]
  from contents loaded frame_create frame_installed frame_render given_adapter
    given_component run scheme agree
  show ?thesis by (intro conjI)
qed

subsection \<open>The examples\<close>

text \<open>
  Claim C6. For the options \<^verbatim>\<open>{wcModal: true}\<close>, \<^verbatim>\<open>create\<close> produces an instance with
  \<^verbatim>\<open>qrcode\<close> true and \<^verbatim>\<open>qrModalOptions\<close> undefined.
\<close>

theorem create_wcModal_true:
  "case create
          (cryptoDefiWallet cid
             (Some \<lparr> CryptoDefiWalletConfigOptions.projectId = None,
                     CryptoDefiWalletConfigOptions.recommended = None,
                     wcModal = Some (WcBoolean True) \<rparr>))
          walletOptions h of
     (wallet, h') \<Rightarrow>
       \<exists>w. wallet_at h' wallet = Some w \<and>
         qrcode w = True \<and>
         CryptoDefiWalletOptions.qrModalOptions w = None"
  by (simp add: create_unfold wallet_at_new)

text \<open>
  Claim C7. When \<^verbatim>\<open>cryptoDefiWallet\<close> is called with no options, \<^verbatim>\<open>create\<close> produces an
  instance with \<^verbatim>\<open>qrcode\<close> false and \<^verbatim>\<open>projectId\<close> undefined.
\<close>

theorem create_no_options:
  "case create (cryptoDefiWallet cid None) walletOptions h of
     (wallet, h') \<Rightarrow>
       \<exists>w. wallet_at h' wallet = Some w \<and>
         qrcode w = False \<and>
         CryptoDefiWalletOptions.projectId w = None"
  by (simp add: create_unfold wallet_at_new)

text \<open>
  Claim C8. When \<^verbatim>\<open>options.wcModal\<close> is an object without a \<^verbatim>\<open>qrModalOptions\<close> property,
  such as \<^verbatim>\<open>{}\<close>, whatever the other options are, \<^verbatim>\<open>create\<close> produces an instance with
  \<^verbatim>\<open>qrcode\<close> true and \<^verbatim>\<open>qrModalOptions\<close> undefined.
\<close>

theorem create_wcModal_object_without_qrModalOptions:
  "case create
          (cryptoDefiWallet cid
             (Some (opts\<lparr>wcModal :=
                Some (WcObject \<lparr> wcModalObject.qrModalOptions = None \<rparr>)\<rparr>)))
          walletOptions h of
     (wallet, h') \<Rightarrow>
       \<exists>w. wallet_at h' wallet = Some w \<and>
         qrcode w = True \<and>
         CryptoDefiWalletOptions.qrModalOptions w = None"
  by (simp add: create_unfold wallet_at_new)

subsection \<open>The metadata does not depend on the options\<close>

text \<open>
  Claim C9. For any two option values, the configurations that \<^verbatim>\<open>cryptoDefiWallet\<close>
  returns have the same \<^verbatim>\<open>id\<close> and the same \<^verbatim>\<open>meta\<close>: the name
  \<^verbatim>\<open>Crypto Defi Wallet\<close>, the three store URLs and the icon. The fields \<^verbatim>\<open>connectUI\<close> and
  \<^verbatim>\<open>isInstalled\<close> are the same too, so that of all fields only \<^verbatim>\<open>recommended\<close> and
  \<^verbatim>\<open>create\<close> mention the options.
\<close>

theorem cryptoDefiWallet_metadata_independent_of_options:
  "id' (cryptoDefiWallet cid options1 :: ('w, 'q, 'p) WalletConfig) =
     id' (cryptoDefiWallet cid options2 :: ('w, 'q, 'p) WalletConfig) \<and>
   meta (cryptoDefiWallet cid options1 :: ('w, 'q, 'p) WalletConfig) =
     meta (cryptoDefiWallet cid options2 :: ('w, 'q, 'p) WalletConfig) \<and>
   WalletMeta.name (meta (cryptoDefiWallet cid options1 :: ('w, 'q, 'p) WalletConfig)) =
     ''Crypto Defi Wallet'' \<and>
   urls (meta (cryptoDefiWallet cid options1 :: ('w, 'q, 'p) WalletConfig)) =
     [(''chrome'',
       ''https://chrome.google.com/webstore/detail/cryptocom-wallet-extensio/hifafgmccdpekplomjjkcfgodnhcellj''),
      (''android'', ''https://play.google.com/store/apps/details?id=com.defi.wallet''),
      (''ios'', ''https://apps.apple.com/us/app/crypto-com-l-defi-wallet/id1512048310'')] \<and>
   iconURL (meta (cryptoDefiWallet cid options1 :: ('w, 'q, 'p) WalletConfig)) =
     cryptoDefiWallet_iconURL \<and>
   connectUI (cryptoDefiWallet cid options1 :: ('w, 'q, 'p) WalletConfig) =
     connectUI (cryptoDefiWallet cid options2 :: ('w, 'q, 'p) WalletConfig) \<and>
   isInstalled (cryptoDefiWallet cid options1 :: ('w, 'q, 'p) WalletConfig) =
     isInstalled (cryptoDefiWallet cid options2 :: ('w, 'q, 'p) WalletConfig)"
  by (simp add: cryptoDefiWallet_def)

section \<open>Properties of the decoder\<close>

text \<open>
  Claim C10. Whatever the library decoder is, \<^verbatim>\<open>decodeTotalAssetsResult\<close> applies it to
  the one-parameter list (a \<^verbatim>\<open>uint256\<close> named \<^verbatim>\<open>totalManagedAssets\<close>) and to the
  hexadecimal input, throws what it throws, and otherwise returns the first element of
  the decoded array. When the decoder returns one value for each parameter, that
  element is the only one.
\<close>

theorem decodeTotalAssetsResult_first_of_uint256_decode:
  "decodeTotalAssetsResult decodeAbiParameters result =
     (case decodeAbiParameters
             [\<lparr> AbiParameter.name = ''totalManagedAssets'', type' = ''uint256'',
                internalType = ''uint256'' \<rparr>] result of
        Inl e \<Rightarrow> Inl e
      | Inr decoded \<Rightarrow> Inr (case decoded of [] \<Rightarrow> None | v # rest \<Rightarrow> Some v)) \<and>
   (decodeAbiParameters FN_OUTPUTS result = Inr decoded \<and>
    length decoded = length FN_OUTPUTS \<longrightarrow>
      decoded = [hd decoded] \<and>
      decodeTotalAssetsResult decodeAbiParameters result = Inr (Some (hd decoded)))"
  by (cases decoded)
     (auto simp: decodeTotalAssetsResult_def FN_OUTPUTS_def array_get_def
        split: sum.splits list.splits)

text \<open>
  The theorem at a decoder that returns the input string once for each parameter, and
  the input \<^verbatim>\<open>0x2a\<close>.
\<close>

theorem decodeTotalAssetsResult_first_of_uint256_decode_witness:
  "(\<lambda>params result. Inr (map (\<lambda>p. result) params) :: unit + string list)
      FN_OUTPUTS ''0x2a'' = Inr [''0x2a''] \<and>
   length [''0x2a''] = length FN_OUTPUTS \<and>
   decodeTotalAssetsResult
     (\<lambda>params result. Inr (map (\<lambda>p. result) params) :: unit + string list) ''0x2a''
      = Inr (Some ''0x2a'')"
  using decodeTotalAssetsResult_first_of_uint256_decode
    [of "\<lambda>params result. Inr (map (\<lambda>p. result) params) :: unit + string list"
        "''0x2a''" "[''0x2a'']"]
  by (simp add: FN_OUTPUTS_def)

end
